theory Spec2Isabelle
  imports Main "HOL-Library.Multiset"
begin

section \<open>Data model\<close>

text \<open>
  The pydantic models of \<^verbatim>\<open>main.py\<close>. Optional fields are \<open>option\<close>s, Python's
  unbounded \<^verbatim>\<open>int\<close> is \<open>int\<close>, and text is \<open>string\<close> (all the text of the catalogs is
  printable ASCII). Two models of the source have a field called \<^verbatim>\<open>name\<close>, and the
  request shares \<^verbatim>\<open>question\<close> and \<^verbatim>\<open>spread_type\<close> with the reading; the spread's
  field is \<open>spread_name\<close> here and the request's fields carry the prefix \<open>req_\<close>.
  The reading's \<^verbatim>\<open>interpretation\<close> is \<open>interpretation_text\<close>, the source's name being
  an Isabelle keyword.
\<close>

record TarotCard =
  name :: string
  number :: "int option"
  suit :: "string option"
  element :: "string option"
  meaning_upright :: string
  meaning_reversed :: string
  golden_dawn_correspondence :: string
  hebrew_letter :: "string option"
  astrological_correspondence :: "string option"
  tree_of_life_path :: "int option"

record TarotSpread =
  spread_name :: string
  positions :: "string list"
  description :: string
  card_count :: int

text \<open>
  One entry of the list that \<^verbatim>\<open>draw_cards\<close> returns: the dictionary literal with the
  four keys \<^verbatim>\<open>card\<close>, \<^verbatim>\<open>reversed\<close>, \<^verbatim>\<open>meaning\<close>, \<^verbatim>\<open>orientation\<close>, where \<^verbatim>\<open>card\<close>
  holds \<^verbatim>\<open>card.dict()\<close>, the ten fields of the card.
\<close>

record DrawnCard =
  card :: TarotCard
  reversed :: bool
  meaning :: string
  orientation :: string

record TarotReading =
  spread_type :: string
  question :: "string option"
  cards_drawn :: "DrawnCard list"
  interpretation_text :: string
  timestamp :: string
  reading_id :: string

section \<open>The card catalog\<close>

definition card_the_fool :: TarotCard where
  "card_the_fool = \<lparr>
     name = ''The Fool'', number = Some 0, suit = None, element = Some ''Air'',
     meaning_upright = ''New beginnings, innocence, spontaneity, free spirit'',
     meaning_reversed = ''Recklessness, taken advantage of, inconsistency, foolishness'',
     golden_dawn_correspondence = ''Path of Aleph, Air element, Uranus'',
     hebrew_letter = Some ''Aleph'',
     astrological_correspondence = Some ''Uranus'',
     tree_of_life_path = Some 11\<rparr>"

definition card_the_magician :: TarotCard where
  "card_the_magician = \<lparr>
     name = ''The Magician'', number = Some 1, suit = None, element = Some ''Air'',
     meaning_upright = ''Manifestation, resourcefulness, power, inspired action'',
     meaning_reversed = ''Manipulation, poor planning, untapped talents'',
     golden_dawn_correspondence = ''Path of Beth, Mercury, Magus of Power'',
     hebrew_letter = Some ''Beth'',
     astrological_correspondence = Some ''Mercury'',
     tree_of_life_path = Some 12\<rparr>"

definition card_the_high_priestess :: TarotCard where
  "card_the_high_priestess = \<lparr>
     name = ''The High Priestess'', number = Some 2, suit = None, element = Some ''Water'',
     meaning_upright = ''Intuition, sacred knowledge, divine feminine, subconscious mind'',
     meaning_reversed = ''Secrets, disconnected from intuition, withdrawal'',
     golden_dawn_correspondence = ''Path of Gimel, Moon, Priestess of Silver Star'',
     hebrew_letter = Some ''Gimel'',
     astrological_correspondence = Some ''Moon'',
     tree_of_life_path = Some 13\<rparr>"

definition card_the_empress :: TarotCard where
  "card_the_empress = \<lparr>
     name = ''The Empress'', number = Some 3, suit = None, element = Some ''Earth'',
     meaning_upright = ''Femininity, beauty, nature, nurturing, abundance'',
     meaning_reversed = ''Creative block, dependence on others, smothering'',
     golden_dawn_correspondence = ''Path of Daleth, Venus, Daughter of Mighty Ones'',
     hebrew_letter = Some ''Daleth'',
     astrological_correspondence = Some ''Venus'',
     tree_of_life_path = Some 14\<rparr>"

definition card_the_emperor :: TarotCard where
  "card_the_emperor = \<lparr>
     name = ''The Emperor'', number = Some 4, suit = None, element = Some ''Fire'',
     meaning_upright = ''Authority, establishment, structure, father figure'',
     meaning_reversed = ''Domination, excessive control, lack of discipline'',
     golden_dawn_correspondence = ''Path of Heh, Aries, Son of Morning'',
     hebrew_letter = Some ''Heh'',
     astrological_correspondence = Some ''Aries'',
     tree_of_life_path = Some 15\<rparr>"

definition card_the_hierophant :: TarotCard where
  "card_the_hierophant = \<lparr>
     name = ''The Hierophant'', number = Some 5, suit = None, element = Some ''Earth'',
     meaning_upright = ''Spiritual wisdom, religious beliefs, conformity, tradition'',
     meaning_reversed = ''Personal beliefs, freedom, challenging the status quo'',
     golden_dawn_correspondence = ''Path of Vav, Taurus, Magus of Eternal'',
     hebrew_letter = Some ''Vav'',
     astrological_correspondence = Some ''Taurus'',
     tree_of_life_path = Some 16\<rparr>"

definition card_the_lovers :: TarotCard where
  "card_the_lovers = \<lparr>
     name = ''The Lovers'', number = Some 6, suit = None, element = Some ''Air'',
     meaning_upright = ''Love, harmony, relationships, values alignment'',
     meaning_reversed = ''Disharmony, imbalance, misaligned values'',
     golden_dawn_correspondence = ''Path of Zayin, Gemini, Children of Voice'',
     hebrew_letter = Some ''Zayin'',
     astrological_correspondence = Some ''Gemini'',
     tree_of_life_path = Some 17\<rparr>"

definition card_the_chariot :: TarotCard where
  "card_the_chariot = \<lparr>
     name = ''The Chariot'', number = Some 7, suit = None, element = Some ''Water'',
     meaning_upright = ''Control, willpower, success, determination'',
     meaning_reversed = ''Self-discipline, opposition, lack of direction'',
     golden_dawn_correspondence = ''Path of Cheth, Cancer, Child of Powers of Waters'',
     hebrew_letter = Some ''Cheth'',
     astrological_correspondence = Some ''Cancer'',
     tree_of_life_path = Some 18\<rparr>"

definition card_strength :: TarotCard where
  "card_strength = \<lparr>
     name = ''Strength'', number = Some 8, suit = None, element = Some ''Fire'',
     meaning_upright = ''Strength, courage, persuasion, influence, compassion'',
     meaning_reversed = ''Self-doubt, low energy, raw emotion'',
     golden_dawn_correspondence = ''Path of Teth, Leo, Daughter of Flaming Sword'',
     hebrew_letter = Some ''Teth'',
     astrological_correspondence = Some ''Leo'',
     tree_of_life_path = Some 19\<rparr>"

definition card_the_hermit :: TarotCard where
  "card_the_hermit = \<lparr>
     name = ''The Hermit'', number = Some 9, suit = None, element = Some ''Earth'',
     meaning_upright = ''Soul searching, introspection, inner guidance'',
     meaning_reversed = ''Isolation, loneliness, withdrawal'',
     golden_dawn_correspondence = ''Path of Yod, Virgo, Magus of Voice of Light'',
     hebrew_letter = Some ''Yod'',
     astrological_correspondence = Some ''Virgo'',
     tree_of_life_path = Some 20\<rparr>"

definition card_wheel_of_fortune :: TarotCard where
  "card_wheel_of_fortune = \<lparr>
     name = ''Wheel of Fortune'', number = Some 10, suit = None, element = Some ''Fire'',
     meaning_upright = ''Good luck, karma, life cycles, destiny, turning point'',
     meaning_reversed = ''Bad luck, lack of control, clinging to control'',
     golden_dawn_correspondence = ''Path of Kaph, Jupiter, Lord of Forces of Life'',
     hebrew_letter = Some ''Kaph'',
     astrological_correspondence = Some ''Jupiter'',
     tree_of_life_path = Some 21\<rparr>"

definition card_justice :: TarotCard where
  "card_justice = \<lparr>
     name = ''Justice'', number = Some 11, suit = None, element = Some ''Air'',
     meaning_upright = ''Justice, fairness, truth, cause and effect, law'',
     meaning_reversed = ''Unfairness, lack of accountability, dishonesty'',
     golden_dawn_correspondence = ''Path of Lamed, Libra, Daughter of Lords of Truth'',
     hebrew_letter = Some ''Lamed'',
     astrological_correspondence = Some ''Libra'',
     tree_of_life_path = Some 22\<rparr>"

definition card_the_hanged_man :: TarotCard where
  "card_the_hanged_man = \<lparr>
     name = ''The Hanged Man'', number = Some 12, suit = None, element = Some ''Water'',
     meaning_upright = ''Suspension, restriction, letting go, sacrifice'',
     meaning_reversed = ''Martyrdom, indecision, delay'',
     golden_dawn_correspondence = ''Path of Mem, Water, Spirit of Mighty Waters'',
     hebrew_letter = Some ''Mem'',
     astrological_correspondence = Some ''Neptune'',
     tree_of_life_path = Some 23\<rparr>"

definition card_ace_of_wands :: TarotCard where
  "card_ace_of_wands = \<lparr>
     name = ''Ace of Wands'', number = Some 1, suit = Some ''Wands'', element = Some ''Fire'',
     meaning_upright = ''Inspiration, new opportunities, growth'',
     meaning_reversed = ''Lack of energy, lack of passion, boredom'',
     golden_dawn_correspondence = ''Root of Fire, Kether in Fire'',
     hebrew_letter = None,
     astrological_correspondence = None,
     tree_of_life_path = Some 1\<rparr>"

definition card_ace_of_cups :: TarotCard where
  "card_ace_of_cups = \<lparr>
     name = ''Ace of Cups'', number = Some 1, suit = Some ''Cups'', element = Some ''Water'',
     meaning_upright = ''Love, new relationships, compassion, creativity'',
     meaning_reversed = ''Self-love, intuition, repressed emotions'',
     golden_dawn_correspondence = ''Root of Water, Kether in Water'',
     hebrew_letter = None,
     astrological_correspondence = None,
     tree_of_life_path = Some 1\<rparr>"

definition card_ace_of_swords :: TarotCard where
  "card_ace_of_swords = \<lparr>
     name = ''Ace of Swords'', number = Some 1, suit = Some ''Swords'', element = Some ''Air'',
     meaning_upright = ''New ideas, mental clarity, breakthrough'',
     meaning_reversed = ''Inner clarity, re-thinking an idea, clouded judgment'',
     golden_dawn_correspondence = ''Root of Air, Kether in Air'',
     hebrew_letter = None,
     astrological_correspondence = None,
     tree_of_life_path = Some 1\<rparr>"

definition card_ace_of_pentacles :: TarotCard where
  "card_ace_of_pentacles = \<lparr>
     name = ''Ace of Pentacles'', number = Some 1, suit = Some ''Pentacles'', element = Some ''Earth'',
     meaning_upright = ''New financial opportunity, manifestation, abundance'',
     meaning_reversed = ''Lost opportunity, lack of planning, poor financial decisions'',
     golden_dawn_correspondence = ''Root of Earth, Kether in Earth'',
     hebrew_letter = None,
     astrological_correspondence = None,
     tree_of_life_path = Some 1\<rparr>"

definition GOLDEN_DAWN_DECK :: "(string \<times> TarotCard list) list" where
  "GOLDEN_DAWN_DECK =
    [(''major_arcana'', [card_the_fool, card_the_magician, card_the_high_priestess, card_the_empress, card_the_emperor, card_the_hierophant, card_the_lovers, card_the_chariot, card_strength, card_the_hermit, card_wheel_of_fortune, card_justice, card_the_hanged_man]),
     (''wands'', [card_ace_of_wands]),
     (''cups'', [card_ace_of_cups]),
     (''swords'', [card_ace_of_swords]),
     (''pentacles'', [card_ace_of_pentacles])]"


section \<open>The spread catalog\<close>

definition spread_single_card :: TarotSpread where
  "spread_single_card = \<lparr>
     spread_name = ''Single Card'',
     positions = [''Guidance''],
     description = ''Simple single-card draw for quick guidance'',
     card_count = 1\<rparr>"

definition spread_three_card :: TarotSpread where
  "spread_three_card = \<lparr>
     spread_name = ''Past, Present, Future'',
     positions = [''Past/Foundation'',
       ''Present/Challenge'',
       ''Future/Outcome''],
     description = ''Simple three-card spread for quick insight'',
     card_count = 3\<rparr>"

definition spread_celtic_cross :: TarotSpread where
  "spread_celtic_cross = \<lparr>
     spread_name = ''Celtic Cross'',
     positions = [''Present Situation'',
       ''Challenge/Cross'',
       ''Distant Past/Foundation'',
       ''Recent Past'',
       ''Crown/Possible Outcome'',
       ''Immediate Future'',
       ''Your Approach'',
       ''External Influences'',
       ''Hopes and Fears'',
       ''Final Outcome''],
     description = ''The most comprehensive spread, exploring all aspects of your situation'',
     card_count = 10\<rparr>"

definition spread_tree_of_life :: TarotSpread where
  "spread_tree_of_life = \<lparr>
     spread_name = ''Tree of Life'',
     positions = [''Kether (Crown)'',
       ''Chokmah (Wisdom)'',
       ''Binah (Understanding)'',
       ''Chesed (Mercy)'',
       ''Geburah (Severity)'',
       ''Tiphareth (Beauty)'',
       ''Netzach (Victory)'',
       ''Hod (Glory)'',
       ''Yesod (Foundation)'',
       ''Malkuth (Kingdom)''],
     description = ''Based on the Kabbalistic Tree of Life, providing deep spiritual insight'',
     card_count = 10\<rparr>"

definition spread_golden_dawn :: TarotSpread where
  "spread_golden_dawn = \<lparr>
     spread_name = ''Golden Dawn Temple'',
     positions = [''Present Situation'',
       ''Hidden Influences'',
       ''Past Foundations'',
       ''Future Possibilities'',
       ''Higher Guidance'',
       ''Practical Action'',
       ''Inner Wisdom'',
       ''External Forces'',
       ''Final Outcome''],
     description = ''Sacred 9-card Golden Dawn spread using all available cards'',
     card_count = 9\<rparr>"

definition spread_seven_pointed_star :: TarotSpread where
  "spread_seven_pointed_star = \<lparr>
     spread_name = ''Seven-Pointed Star'',
     positions = [''Self'',
       ''Past'',
       ''Future'',
       ''Hidden Influences'',
       ''External Forces'',
       ''Hopes/Fears'',
       ''Final Outcome''],
     description = ''Mystical 7-card spread for deep spiritual insight'',
     card_count = 7\<rparr>"

definition TAROT_SPREADS :: "(string \<times> TarotSpread) list" where
  "TAROT_SPREADS =
    [(''single_card'', spread_single_card),
     (''three_card'', spread_three_card),
     (''celtic_cross'', spread_celtic_cross),
     (''tree_of_life'', spread_tree_of_life),
     (''golden_dawn'', spread_golden_dawn),
     (''seven_pointed_star'', spread_seven_pointed_star)]"

definition get_all_cards :: "TarotCard list" where
  "get_all_cards = concat (map snd GOLDEN_DAWN_DECK)"


section \<open>Exceptions and the random source\<close>

text \<open>
  Every exception the modelled code can raise is a value. \<open>HTTPException\<close> carries the
  status code and the detail; it derives from Python's \<^verbatim>\<open>Exception\<close>, so a handler
  \<^verbatim>\<open>except Exception\<close> catches it like every other constructor of this type.
\<close>

datatype exn =
    HTTPException int string
  | KeyError string
  | ValueError string
  | OSError string
  | FileNotFoundError string
  | JSONDecodeError string

text \<open>
  The process-wide random source is an infinite tape of raw numbers; a call of
  \<^verbatim>\<open>randbelow(n)\<close> reads the head of the tape, reduced below \<open>n\<close>, and moves on.
  Every outcome of the library's generator is the reading of some tape.
\<close>

type_synonym rng = "nat \<Rightarrow> nat"

definition randbelow :: "nat \<Rightarrow> rng \<Rightarrow> nat \<times> rng" where
  "randbelow n g = (g 0 mod n, \<lambda>i. g (Suc i))"

text \<open>\<^verbatim>\<open>random.choice(seq)\<close> is \<^verbatim>\<open>seq[randbelow(len(seq))]\<close>.\<close>

definition random_choice :: "'a list \<Rightarrow> rng \<Rightarrow> 'a \<times> rng" where
  "random_choice seq g = (let (j, g') = randbelow (length seq) g in (seq ! j, g'))"

text \<open>\<^verbatim>\<open>random.randint(a, b)\<close> is \<^verbatim>\<open>a + randbelow(b - a + 1)\<close>.\<close>

definition random_randint :: "nat \<Rightarrow> nat \<Rightarrow> rng \<Rightarrow> nat \<times> rng" where
  "random_randint a b g = (let (j, g') = randbelow (b - a + 1) g in (a + j, g'))"

text \<open>
  \<^verbatim>\<open>random.sample(population, k)\<close>, the library's selection from a pool, which it uses
  for a population of at most 21 elements (the catalog has 17):
  \<^verbatim>\<open>
    if not 0 <= k <= n: raise ValueError(...)
    pool = list(population)
    for i in range(k):
        j = randbelow(n - i)
        result[i] = pool[j]
        pool[j] = pool[n - i - 1]
  \<close>
\<close>

function sample_loop ::
  "'a list \<Rightarrow> nat \<Rightarrow> nat \<Rightarrow> nat \<Rightarrow> 'a list \<Rightarrow> rng \<Rightarrow> 'a list \<times> rng" where
  "sample_loop pool n k i result g =
     (if i < k then
        (let (j, g') = randbelow (n - i) g
         in sample_loop (pool[j := pool ! (n - i - 1)]) n k (Suc i) (result @ [pool ! j]) g')
      else (result, g))"
  by pat_completeness auto
termination
  by (relation "measure (\<lambda>(pool, n, k, i, result, g). k - i)") auto

declare sample_loop.simps [simp del]

definition random_sample :: "'a list \<Rightarrow> int \<Rightarrow> rng \<Rightarrow> (exn + 'a list) \<times> rng" where
  "random_sample population k g =
     (let n = length population
      in if \<not> (0 \<le> k \<and> k \<le> int n)
         then (Inl (ValueError ''Sample larger than population or is negative''), g)
         else (let (result, g') = sample_loop population n (nat k) 0 [] g
               in (Inr result, g')))"

section \<open>The draw engine\<close>

text \<open>
  The loop of \<^verbatim>\<open>draw_cards\<close> over the sampled cards. The coin is thrown only when
  \<^verbatim>\<open>include_reversed\<close> holds, and \<^verbatim>\<open>random.choice([True, False])\<close> decides it.
\<close>

fun draw_loop :: "bool \<Rightarrow> TarotCard list \<Rightarrow> DrawnCard list \<Rightarrow> rng \<Rightarrow> DrawnCard list \<times> rng" where
  "draw_loop include_reversed [] result g = (result, g)"
| "draw_loop include_reversed (c # drawn_cards) result g =
     (let (is_reversed, g') =
            (if include_reversed then random_choice [True, False] g else (False, g))
      in draw_loop include_reversed drawn_cards
           (result @
            [\<lparr>card = c,
              reversed = is_reversed,
              meaning = (if is_reversed then meaning_reversed c else meaning_upright c),
              orientation = (if is_reversed then ''Reversed'' else ''Upright'')\<rparr>])
           g')"

text \<open>An entry that is upright: flag, label and resolved meaning agree on it.\<close>

definition upright_entry :: "DrawnCard \<Rightarrow> bool" where
  "upright_entry d \<longleftrightarrow>
     \<not> reversed d \<and> orientation d = ''Upright'' \<and> meaning d = meaning_upright (card d)"

text \<open>
  \<^verbatim>\<open>draw_cards\<close>: a count above the size of the catalog is clamped (the source logs a
  warning, which has no effect on the result); a negative count reaches
  \<^verbatim>\<open>random.sample\<close> as it is and raises there.
\<close>

definition draw_cards :: "int \<Rightarrow> bool \<Rightarrow> rng \<Rightarrow> (exn + DrawnCard list) \<times> rng" where
  "draw_cards cnt include_reversed g =
     (let all_cards = get_all_cards;
          count' = (if cnt > int (length all_cards) then int (length all_cards) else cnt)
      in case random_sample all_cards count' g of
           (Inl e, g1) \<Rightarrow> (Inl e, g1)
         | (Inr drawn_cards, g1) \<Rightarrow>
             (let (result, g2) = draw_loop include_reversed drawn_cards [] g1
              in (Inr result, g2)))"


section \<open>Text helpers\<close>

text \<open>
  Python's \<^verbatim>\<open>str\<close> of a non-negative integer (the decimal digits), the newline
  character, and \<^verbatim>\<open>str.strip()\<close>, which removes the white space at both ends.
\<close>

definition digit_char :: "nat \<Rightarrow> char" where
  "digit_char d = ''0123456789'' ! d"

fun str_nat :: "nat \<Rightarrow> string" where
  "str_nat n =
     (if n < 10 then [digit_char n]
      else str_nat (n div 10) @ [digit_char (n mod 10)])"

declare str_nat.simps [simp del]

definition str_int :: "int \<Rightarrow> string" where
  "str_int i = (if i < 0 then ''-'' @ str_nat (nat (- i)) else str_nat (nat i))"

definition nl :: string where
  "nl = [CHR 0x0A]"

definition is_space :: "char \<Rightarrow> bool" where
  "is_space c \<longleftrightarrow>
     c \<in> set [CHR 0x09, CHR 0x0A, CHR 0x0B, CHR 0x0C, CHR 0x0D,
              CHR 0x1C, CHR 0x1D, CHR 0x1E, CHR 0x1F, CHR 0x20]"

definition strip :: "string \<Rightarrow> string" where
  "strip s = rev (dropWhile is_space (rev (dropWhile is_space s)))"

text \<open>\<^verbatim>\<open>str(e)\<close> of an exception: Starlette prints an \<^verbatim>\<open>HTTPException\<close> as
  \<^verbatim>\<open>"{status_code}: {detail}"\<close>, a \<^verbatim>\<open>KeyError\<close> prints the quoted key, the others
  print their message.\<close>

fun str_exn :: "exn \<Rightarrow> string" where
  "str_exn (HTTPException status_code detail) = str_int status_code @ '': '' @ detail"
| "str_exn (KeyError k) = [CHR 0x27] @ k @ [CHR 0x27]"
| "str_exn (ValueError m) = m"
| "str_exn (OSError m) = m"
| "str_exn (FileNotFoundError m) = m"
| "str_exn (JSONDecodeError m) = m"

section \<open>The interpretation formatter\<close>

text \<open>\<^verbatim>\<open>question or 'General guidance'\<close>: \<^verbatim>\<open>None\<close> and the empty string are both falsy.\<close>

definition question_or_default :: "string option \<Rightarrow> string" where
  "question_or_default q =
     (case q of None \<Rightarrow> ''General guidance''
      | Some s \<Rightarrow> if s = [] then ''General guidance'' else s)"

definition closing_paragraph :: string where
  "closing_paragraph =
     nl @ ''This reading suggests a journey through the archetypes and energies represented by these sacred symbols. Consider how each card''
     @ [CHR 0x27] @ ''s energy applies to your current situation and the guidance it offers for your path forward.''"

text \<open>
  The loop of \<^verbatim>\<open>_generate_basic_interpretation\<close> over \<^verbatim>\<open>enumerate(cards)\<close>, with the
  text built so far as accumulator. Each round looks the spread up again
  (\<^verbatim>\<open>TAROT_SPREADS[spread_type]\<close>), which raises \<^verbatim>\<open>KeyError\<close> for an unregistered
  key; with no card the spread is never looked up.
\<close>

fun basic_loop :: "string \<Rightarrow> nat \<Rightarrow> DrawnCard list \<Rightarrow> string \<Rightarrow> exn + string" where
  "basic_loop st i [] interp = Inr interp"
| "basic_loop st i (card_info # cards) interp =
     (case map_of TAROT_SPREADS st of
        None \<Rightarrow> Inl (KeyError st)
      | Some spread \<Rightarrow>
          (let position =
                 (if i < length (positions spread) then positions spread ! i
                  else ''Position '' @ str_nat (i + 1))
           in basic_loop st (Suc i) cards
                (interp @ nl @ position @ '': '' @ name (card card_info)
                   @ '' ('' @ orientation card_info @ '')'' @ nl
                   @ meaning card_info @ nl
                   @ ''Golden Dawn: '' @ golden_dawn_correspondence (card card_info) @ nl
                   @ nl)))"

definition generate_basic_interpretation ::
  "DrawnCard list \<Rightarrow> string option \<Rightarrow> string \<Rightarrow> exn + string" where
  "generate_basic_interpretation cards q st =
     (case basic_loop st 0 cards (''Reading for: '' @ question_or_default q @ nl @ nl) of
        Inl e \<Rightarrow> Inl e
      | Inr interp \<Rightarrow> Inr (strip (interp @ closing_paragraph)))"

text \<open>
  The text the formatter is specified to produce, written as the specification words
  it: the label of the card at index \<open>i\<close> is the spread's position \<open>i\<close> when there is
  one and the synthesized \<^verbatim>\<open>"Position {i+1}"\<close> otherwise; each card contributes one entry
  with its label, name, orientation, meaning and correspondence.
\<close>

definition spec_position_label :: "TarotSpread \<Rightarrow> nat \<Rightarrow> string" where
  "spec_position_label spread i =
     (if i < length (positions spread) then positions spread ! i
      else ''Position '' @ str_nat (i + 1))"

definition spec_card_entry :: "string \<Rightarrow> DrawnCard \<Rightarrow> string" where
  "spec_card_entry label d =
     nl @ label @ '': '' @ name (card d) @ '' ('' @ orientation d @ '')'' @ nl
       @ meaning d @ nl
       @ ''Golden Dawn: '' @ golden_dawn_correspondence (card d) @ nl
       @ nl"

definition spec_entries :: "TarotSpread \<Rightarrow> nat \<Rightarrow> DrawnCard list \<Rightarrow> string" where
  "spec_entries spread i0 cards =
     concat (map (\<lambda>(i, d). spec_card_entry (spec_position_label spread i) d)
               (zip [i0 ..< i0 + length cards] cards))"

text \<open>
  \<^verbatim>\<open>get_ai_interpretation\<close>: the body of the \<^verbatim>\<open>try\<close> returns the basic interpretation
  (what follows the \<^verbatim>\<open>return\<close> is a string literal, never evaluated); the handler
  \<^verbatim>\<open>except Exception\<close> logs and calls the basic interpretation again.
\<close>

definition get_ai_interpretation ::
  "DrawnCard list \<Rightarrow> string option \<Rightarrow> string \<Rightarrow> exn + string" where
  "get_ai_interpretation cards q st =
     (case generate_basic_interpretation cards q st of
        Inr interp \<Rightarrow> Inr interp
      | Inl e \<Rightarrow> generate_basic_interpretation cards q st)"

section \<open>Documents and the reading store\<close>

text \<open>
  The values that \<^verbatim>\<open>reading.dict()\<close> is built from, which are the values of a JSON
  document: \<^verbatim>\<open>None\<close>, booleans, integers, strings, lists, and dictionaries with
  string keys (an association list in insertion order).
\<close>

datatype json =
    JNull
  | JBool bool
  | JInt int
  | JStr string
  | JList "json list"
  | JDict "(string \<times> json) list"

definition opt_json :: "('a \<Rightarrow> json) \<Rightarrow> 'a option \<Rightarrow> json" where
  "opt_json f x = (case x of None \<Rightarrow> JNull | Some v \<Rightarrow> f v)"

definition card_dict :: "TarotCard \<Rightarrow> json" where
  "card_dict c = JDict
     [(''name'', JStr (name c)),
      (''number'', opt_json JInt (number c)),
      (''suit'', opt_json JStr (suit c)),
      (''element'', opt_json JStr (element c)),
      (''meaning_upright'', JStr (meaning_upright c)),
      (''meaning_reversed'', JStr (meaning_reversed c)),
      (''golden_dawn_correspondence'', JStr (golden_dawn_correspondence c)),
      (''hebrew_letter'', opt_json JStr (hebrew_letter c)),
      (''astrological_correspondence'', opt_json JStr (astrological_correspondence c)),
      (''tree_of_life_path'', opt_json JInt (tree_of_life_path c))]"

definition drawn_dict :: "DrawnCard \<Rightarrow> json" where
  "drawn_dict d = JDict
     [(''card'', card_dict (card d)),
      (''reversed'', JBool (reversed d)),
      (''meaning'', JStr (meaning d)),
      (''orientation'', JStr (orientation d))]"

definition reading_dict :: "TarotReading \<Rightarrow> (string \<times> json) list" where
  "reading_dict r =
     [(''spread_type'', JStr (spread_type r)),
      (''question'', opt_json JStr (question r)),
      (''cards_drawn'', JList (map drawn_dict (cards_drawn r))),
      (''interpretation'', JStr (interpretation_text r)),
      (''timestamp'', JStr (timestamp r)),
      (''reading_id'', JStr (reading_id r))]"

text \<open>\<^verbatim>\<open>d[k] = v\<close> on a dictionary: an existing key keeps its place.\<close>

fun dict_setitem :: "string \<Rightarrow> json \<Rightarrow> (string \<times> json) list \<Rightarrow> (string \<times> json) list" where
  "dict_setitem k v [] = [(k, v)]"
| "dict_setitem k v ((k', v') # kvs) =
     (if k = k' then (k, v) # kvs else (k', v') # dict_setitem k v kvs)"

text \<open>
  A stored file holds either the text of a JSON document, which \<^verbatim>\<open>json.load\<close> reads
  back as the document that \<^verbatim>\<open>json.dump\<close> wrote, or text that \<^verbatim>\<open>json.load\<close>
  rejects. The text itself is the library's business and is not modelled.
\<close>

datatype file_content = Document json | Unparseable string

text \<open>
  What the handlers read and change: the random source, the two readings of the
  clock (\<^verbatim>\<open>datetime.now().strftime('%Y%m%d_%H%M%S')\<close> and
  \<^verbatim>\<open>datetime.now(timezone.utc).isoformat()\<close>), the files, and which paths can be
  opened for writing (a full disk or a missing permission makes \<^verbatim>\<open>open\<close> fail).
\<close>

record world =
  entropy :: rng
  clock_local :: string
  clock_utc :: string
  files :: "string \<rightharpoonup> file_content"
  writable :: "string \<Rightarrow> bool"

definition readings_path :: string where
  "readings_path = ''/app/readings''"

text \<open>\<^verbatim>\<open>Path(base) / segment\<close>: an absolute segment replaces the base. Both handlers
  build the path of a reading with the same expression.\<close>

definition path_join :: "string \<Rightarrow> string \<Rightarrow> string" where
  "path_join base segment =
     (case segment of
        [] \<Rightarrow> base
      | c # _ \<Rightarrow> if c = CHR ''/'' then segment else base @ ''/'' @ segment)"

definition reading_file_of :: "string \<Rightarrow> string" where
  "reading_file_of rid = path_join readings_path (rid @ ''.json'')"

text \<open>
  \<^verbatim>\<open>save_reading\<close>: the handler \<^verbatim>\<open>except Exception\<close> logs and raises the same
  exception again.
\<close>

definition save_reading :: "TarotReading \<Rightarrow> world \<Rightarrow> (exn + string) \<times> world" where
  "save_reading reading w =
     (let reading_file = reading_file_of (reading_id reading);
          reading_dict' = dict_setitem ''timestamp'' (JStr (timestamp reading)) (reading_dict reading)
      in if writable w reading_file
         then (Inr reading_file,
               w\<lparr>files := (files w)(reading_file \<mapsto> Document (JDict reading_dict'))\<rparr>)
         else (Inl (OSError reading_file), w))"

section \<open>The request handlers\<close>

record ReadingRequest =
  req_question :: "string option"
  req_spread_type :: string
  req_include_reversed :: bool
  req_deck_type :: string
  req_interpretation_style :: string
  req_user_birth_info :: "(string \<times> json) list option"

text \<open>
  The content of the response of \<^verbatim>\<open>create_reading\<close>; \<open>resp_reading\<close> is the reading
  whose \<^verbatim>\<open>dict()\<close> the source sends.
\<close>

record ReadingResponse =
  resp_success :: bool
  resp_reading :: TarotReading
  resp_message :: string

text \<open>The body of the \<^verbatim>\<open>try\<close> block of \<^verbatim>\<open>create_reading\<close>.\<close>

definition create_reading_body ::
  "ReadingRequest \<Rightarrow> world \<Rightarrow> (exn + ReadingResponse) \<times> world" where
  "create_reading_body request w =
     (case map_of TAROT_SPREADS (req_spread_type request) of
        None \<Rightarrow>
          (Inl (HTTPException 400 (''Unknown spread type: '' @ req_spread_type request)), w)
      | Some spread \<Rightarrow>
          (case draw_cards (card_count spread) (req_include_reversed request) (entropy w) of
             (Inl e, g1) \<Rightarrow> (Inl e, w\<lparr>entropy := g1\<rparr>)
           | (Inr drawn, g1) \<Rightarrow>
               (case get_ai_interpretation drawn (req_question request) (req_spread_type request) of
                  Inl e \<Rightarrow> (Inl e, w\<lparr>entropy := g1\<rparr>)
                | Inr interp \<Rightarrow>
                    (let (r, g2) = random_randint 1000 9999 g1;
                         rid = ''reading_'' @ clock_local w @ ''_'' @ str_nat r;
                         reading = \<lparr>spread_type = req_spread_type request,
                                    question = req_question request,
                                    cards_drawn = drawn,
                                    interpretation_text = interp,
                                    timestamp = clock_utc w,
                                    reading_id = rid\<rparr>
                     in case save_reading reading (w\<lparr>entropy := g2\<rparr>) of
                          (Inl e, w') \<Rightarrow> (Inl e, w')
                        | (Inr location, w') \<Rightarrow>
                            (Inr \<lparr>resp_success = True,
                                  resp_reading = reading,
                                  resp_message = ''Reading completed successfully: '' @ rid\<rparr>,
                             w')))))"

text \<open>
  \<^verbatim>\<open>create_reading\<close>: the \<^verbatim>\<open>try\<close> block has the one handler \<^verbatim>\<open>except Exception\<close>,
  which answers every exception of the body, the \<^verbatim>\<open>HTTPException\<close> of the spread
  check among them, with status 500 and \<^verbatim>\<open>str(e)\<close> as detail.
\<close>

definition create_reading ::
  "ReadingRequest \<Rightarrow> world \<Rightarrow> (exn + ReadingResponse) \<times> world" where
  "create_reading request w =
     (case create_reading_body request w of
        (Inl e, w') \<Rightarrow> (Inl (HTTPException 500 (str_exn e)), w')
      | (Inr response, w') \<Rightarrow> (Inr response, w'))"

text \<open>The body of the \<^verbatim>\<open>try\<close> block of \<^verbatim>\<open>get_reading\<close>.\<close>

definition get_reading_body :: "string \<Rightarrow> world \<Rightarrow> exn + json" where
  "get_reading_body rid w =
     (let reading_file = reading_file_of rid
      in if files w reading_file = None
         then Inl (HTTPException 404 ''Reading not found'')
         else (case files w reading_file of
                 None \<Rightarrow> Inl (FileNotFoundError reading_file)
               | Some (Unparseable t) \<Rightarrow> Inl (JSONDecodeError t)
               | Some (Document reading_data) \<Rightarrow> Inr (JDict [(''reading'', reading_data)])))"

text \<open>
  \<^verbatim>\<open>get_reading\<close>: the handlers in the order of the source, first
  \<^verbatim>\<open>except FileNotFoundError\<close> (status 404), then \<^verbatim>\<open>except Exception\<close> (status 500
  with \<^verbatim>\<open>str(e)\<close>).
\<close>

definition get_reading :: "string \<Rightarrow> world \<Rightarrow> exn + json" where
  "get_reading rid w =
     (case get_reading_body rid w of
        Inr response \<Rightarrow> Inr response
      | Inl (FileNotFoundError m) \<Rightarrow> Inl (HTTPException 404 ''Reading not found'')
      | Inl e \<Rightarrow> Inl (HTTPException 500 (str_exn e)))"


section \<open>Example inputs\<close>

text \<open>Two worlds (the second at a later time, with another file stored and the same
  random tape), a request and a reading on which the theorems below are exercised.\<close>

definition example_world :: world where
  "example_world =
     \<lparr>entropy = (\<lambda>i. 7 * i + 3),
      clock_local = ''20240101_120000'',
      clock_utc = ''2024-01-01T12:00:00+00:00'',
      files = Map.empty,
      writable = (\<lambda>p. True)\<rparr>"

definition later_world :: world where
  "later_world =
     example_world\<lparr>clock_local := ''20250615_080000'',
                   clock_utc := ''2025-06-15T08:00:00+00:00'',
                   files := [''/app/readings/reading_old.json'' \<mapsto> Unparseable ''{'']\<rparr>"

definition example_request :: ReadingRequest where
  "example_request =
     \<lparr>req_question = None, req_spread_type = ''three_card'', req_include_reversed = False,
      req_deck_type = ''golden_dawn'', req_interpretation_style = ''traditional'',
      req_user_birth_info = None\<rparr>"

definition example_reading :: TarotReading where
  "example_reading =
     \<lparr>spread_type = ''single_card'',
      question = Some ''What now?'',
      cards_drawn = [\<lparr>card = card_the_hermit, reversed = True,
                      meaning = meaning_reversed card_the_hermit,
                      orientation = ''Reversed''\<rparr>],
      interpretation_text = ''Reading for: What now?'',
      timestamp = ''2024-01-01T12:00:00+00:00'',
      reading_id = ''reading_20240101_120000_1234''\<rparr>"

section \<open>Facts about the catalogs\<close>

lemmas card_defs =
  card_the_fool_def card_the_magician_def card_the_high_priestess_def card_the_empress_def
  card_the_emperor_def card_the_hierophant_def card_the_lovers_def card_the_chariot_def
  card_strength_def card_the_hermit_def card_wheel_of_fortune_def card_justice_def
  card_the_hanged_man_def card_ace_of_wands_def card_ace_of_cups_def card_ace_of_swords_def
  card_ace_of_pentacles_def

lemmas spread_defs =
  spread_single_card_def spread_three_card_def spread_celtic_cross_def
  spread_tree_of_life_def spread_golden_dawn_def spread_seven_pointed_star_def

lemma length_get_all_cards: "length get_all_cards = 17"
  by (simp add: get_all_cards_def GOLDEN_DAWN_DECK_def)

lemma distinct_card_names: "distinct (map name get_all_cards)"
  by (simp add: get_all_cards_def GOLDEN_DAWN_DECK_def card_defs)

lemma registered_spread_cases:
  assumes "map_of TAROT_SPREADS k = Some spread"
  shows "spread \<in> {spread_single_card, spread_three_card, spread_celtic_cross,
                    spread_tree_of_life, spread_golden_dawn, spread_seven_pointed_star}"
  using assms by (auto simp: TAROT_SPREADS_def split: if_splits)

lemma registered_card_count:
  assumes "map_of TAROT_SPREADS k = Some spread"
  shows "card_count spread = int (length (positions spread))"
    and "0 \<le> card_count spread" and "card_count spread \<le> 10"
  using registered_spread_cases[OF assms] by (auto simp: spread_defs)

section \<open>Sampling without replacement: the sample is a sub-multiset of the population\<close>

lemma take_vacancy:
  assumes "j < m" "m \<le> length pool"
  shows "mset (take (m - 1) (pool[j := pool ! (m - 1)])) + {#pool ! j#} = mset (take m pool)"
proof -
  from assms obtain m' where m: "m = Suc m'" by (cases m) auto
  have t: "take m pool = take m' pool @ [pool ! m']"
    using assms m by (simp add: take_Suc_conv_app_nth)
  show ?thesis
  proof (cases "j = m'")
    case True
    then show ?thesis using t m by simp
  next
    case False
    with assms m have jl: "j < m'" by simp
    have "take m' (pool[j := pool ! m']) = (take m' pool)[j := pool ! m']"
      by (simp add: take_update_swap)
    moreover have "j < length (take m' pool)" using jl assms m by simp
    moreover have "(take m' pool) ! j = pool ! j" using jl by simp
    moreover have "pool ! j \<in># mset (take m' pool)"
      using jl assms m by (simp add: in_set_conv_nth) (metis nth_take)
    ultimately show ?thesis using t m
      by (simp add: mset_update)
  qed
qed

lemma sample_loop_mset:
  "n = length pool \<Longrightarrow> k \<le> n \<Longrightarrow> i \<le> k \<Longrightarrow>
   mset (fst (sample_loop pool n k i result g)) \<subseteq># mset result + mset (take (n - i) pool)"
proof (induction pool n k i result g rule: sample_loop.induct)
  case (1 pool n k i result g)
  show ?case
  proof (cases "i < k")
    case False
    then show ?thesis by (simp add: sample_loop.simps[of pool n k i])
  next
    case True
    obtain j g' where r: "randbelow (n - i) g = (j, g')" by (cases "randbelow (n - i) g")
    have jl: "j < n - i" using r True "1.prems" by (auto simp: randbelow_def)
    have ih: "mset (fst (sample_loop (pool[j := pool ! (n - i - 1)]) n k (Suc i) (result @ [pool ! j]) g'))
       \<subseteq># mset (result @ [pool ! j]) + mset (take (n - Suc i) (pool[j := pool ! (n - i - 1)]))"
      using "1.IH"[OF True r[symmetric] refl] "1.prems" True by simp
    have v: "mset (take (n - i - 1) (pool[j := pool ! (n - i - 1)])) + {#pool ! j#} = mset (take (n - i) pool)"
      using take_vacancy[of j "n - i" pool] jl "1.prems" by simp
    have "mset (result @ [pool ! j]) + mset (take (n - Suc i) (pool[j := pool ! (n - i - 1)]))
       = mset result + (mset (take (n - i - 1) (pool[j := pool ! (n - i - 1)])) + {#pool ! j#})"
      by simp
    also have "\<dots> = mset result + mset (take (n - i) pool)"
      by (simp only: v)
    finally have e: "mset (result @ [pool ! j]) + mset (take (n - Suc i) (pool[j := pool ! (n - i - 1)]))
       = mset result + mset (take (n - i) pool)" .
    have step: "sample_loop pool n k i result g =
        sample_loop (pool[j := pool ! (n - i - 1)]) n k (Suc i) (result @ [pool ! j]) g'"
      using True r by (simp add: sample_loop.simps[of pool n k i])
    show ?thesis unfolding step e[symmetric] by (rule ih)
  qed
qed

lemma sample_loop_length:
  "i \<le> k \<Longrightarrow> length (fst (sample_loop pool n k i result g)) = length result + (k - i)"
proof (induction pool n k i result g rule: sample_loop.induct)
  case (1 pool n k i result g)
  show ?case
  proof (cases "i < k")
    case False
    with "1.prems" show ?thesis by (subst sample_loop.simps) simp
  next
    case True
    obtain j g' where r: "randbelow (n - i) g = (j, g')" by (cases "randbelow (n - i) g")
    show ?thesis using "1.IH"[OF True r[symmetric] refl] True r
      by (simp add: sample_loop.simps[of pool n k i])
  qed
qed

lemma subseteq_mset_distinct:
  assumes "mset xs \<subseteq># mset ys" "distinct ys"
  shows "distinct xs"
proof -
  have le: "count (mset xs) a \<le> count (mset ys) a" for a
    using assms(1) by (simp add: mset_subset_eq_count)
  have "count (mset ys) a \<le> 1" for a
    using assms(2) by (simp add: distinct_count_atmost_1)
  then have le1: "count (mset xs) a \<le> 1" for a
    using le[of a] by (meson order_trans)
  have "count (mset xs) a = (if a \<in> set xs then 1 else 0)" for a
  proof (cases "a \<in> set xs")
    case True
    then have "a \<in># mset xs" by simp
    then have "1 \<le> count (mset xs) a"
      by simp
    with le1[of a] have "count (mset xs) a = 1" by linarith
    then show ?thesis using True by simp
  next
    case False
    then show ?thesis by (simp add: count_eq_zero_iff)
  qed
  then show ?thesis by (simp add: distinct_count_atmost_1)
qed

lemma sample_loop_distinct:
  assumes "distinct (map f population)" "k \<le> length population"
  shows "distinct (map f (fst (sample_loop population (length population) k 0 [] g)))"
proof -
  have "mset (fst (sample_loop population (length population) k 0 [] g)) \<subseteq># mset population"
    using sample_loop_mset[of "length population" population k 0 "[]" g] assms(2) by simp
  then have "mset (map f (fst (sample_loop population (length population) k 0 [] g)))
      \<subseteq># mset (map f population)"
    by (simp add: image_mset_subseteq_mono)
  then show ?thesis using assms(1) by (rule subseteq_mset_distinct)
qed


section \<open>Properties of the draw engine\<close>

lemma draw_loop_cards:
  "map card (fst (draw_loop inc cs result g)) = map card result @ cs"
  by (induction cs arbitrary: result g) (auto split: prod.splits)

lemma draw_loop_upright:
  "list_all upright_entry result \<Longrightarrow> list_all upright_entry (fst (draw_loop False cs result g))"
  by (induction cs arbitrary: result g) (simp_all add: upright_entry_def)

lemma draw_cards_negative:
  assumes "cnt < 0"
  shows "fst (draw_cards cnt inc g) = Inl (ValueError ''Sample larger than population or is negative'')"
  using assms by (simp add: draw_cards_def random_sample_def Let_def)

lemma draw_cards_result:
  fixes g :: rng
  assumes "0 \<le> cnt"
  defines "k \<equiv> min (nat cnt) (length get_all_cards)"
  defines "s \<equiv> sample_loop get_all_cards (length get_all_cards) k 0 [] g"
  shows "draw_cards cnt inc g =
           (Inr (fst (draw_loop inc (fst s) [] (snd s))), snd (draw_loop inc (fst s) [] (snd s)))"
proof -
  have "(if cnt > int (length get_all_cards) then int (length get_all_cards) else cnt) = int k"
    using assms(1) by (auto simp: k_def min_def)
  then show ?thesis
    using assms(1) by (simp add: draw_cards_def random_sample_def Let_def s_def k_def split: prod.splits)
qed

lemma draw_cards_cards:
  assumes "0 \<le> cnt" and "fst (draw_cards cnt inc g) = Inr ds"
  shows "map card ds =
           fst (sample_loop get_all_cards (length get_all_cards)
                  (min (nat cnt) (length get_all_cards)) 0 [] g)"
  using assms(2) unfolding draw_cards_result[OF assms(1)] by (auto simp: draw_loop_cards)

lemma draw_cards_length:
  assumes "0 \<le> cnt" and "fst (draw_cards cnt inc g) = Inr ds"
  shows "length ds = min (nat cnt) (length get_all_cards)"
proof -
  have "length ds = length (map card ds)" by simp
  also have "\<dots> = min (nat cnt) (length get_all_cards)"
    unfolding draw_cards_cards[OF assms] by (simp add: sample_loop_length)
  finally show ?thesis .
qed

text \<open>
  Claim C3. For every non-negative count and either value of the flag, \<open>draw_cards\<close>
  raises nothing and returns exactly \<open>min count (size of the catalog)\<close> drawn cards,
  whose card names are pairwise distinct; a count above the size of the catalog is
  clamped. This holds for every tape of the random source.
\<close>

theorem draw_cards_count_distinct:
  assumes "0 \<le> cnt"
  shows "\<exists>ds. fst (draw_cards cnt include_reversed g) = Inr ds
            \<and> length ds = min (nat cnt) (length get_all_cards)
            \<and> distinct (map (\<lambda>d. name (card d)) ds)"
proof -
  obtain ds where ds: "fst (draw_cards cnt include_reversed g) = Inr ds"
    unfolding draw_cards_result[OF assms] by simp
  have "map name (map card ds) =
          map name (fst (sample_loop get_all_cards (length get_all_cards)
                           (min (nat cnt) (length get_all_cards)) 0 [] g))"
    by (simp only: draw_cards_cards[OF assms ds])
  moreover have "distinct \<dots>"
    by (rule sample_loop_distinct[OF distinct_card_names]) simp
  ultimately have "distinct (map (\<lambda>d. name (card d)) ds)"
    by (simp add: comp_def)
  with ds draw_cards_length[OF assms ds] show ?thesis by blast
qed

theorem draw_cards_count_distinct_witness:
  "(0::int) \<le> 3 \<and> (0::int) \<le> 100
   \<and> (\<exists>ds. fst (draw_cards 3 True (\<lambda>i. 7 * i + 3)) = Inr ds \<and> length ds = 3
            \<and> distinct (map (\<lambda>d. name (card d)) ds))
   \<and> (\<exists>ds. fst (draw_cards 100 True (\<lambda>i. 7 * i + 3)) = Inr ds \<and> length ds = 17
            \<and> distinct (map (\<lambda>d. name (card d)) ds))"
  using draw_cards_count_distinct[of 3 True "\<lambda>i. 7 * i + 3"]
        draw_cards_count_distinct[of 100 True "\<lambda>i. 7 * i + 3"]
  by (simp add: length_get_all_cards)

text \<open>
  Claim C4. When \<open>draw_cards\<close> is called with \<open>include_reversed = False\<close>, every drawn
  card of the result has the reversed flag false, the orientation label \<open>Upright\<close> and
  the upright meaning of its card as resolved meaning.
\<close>

theorem draw_cards_upright:
  assumes "fst (draw_cards cnt False g) = Inr ds" and "d \<in> set ds"
  shows "\<not> reversed d \<and> orientation d = ''Upright'' \<and> meaning d = meaning_upright (card d)"
proof -
  have nonneg: "0 \<le> cnt"
  proof (rule ccontr)
    assume "\<not> 0 \<le> cnt"
    then have "cnt < 0" by simp
    from draw_cards_negative[OF this] assms(1) show False by simp
  qed
  have "list_all upright_entry ds"
    using assms(1) unfolding draw_cards_result[OF nonneg]
    using draw_loop_upright[of "[]"] by auto
  with assms(2) show ?thesis
    by (auto simp: list_all_iff upright_entry_def)
qed


theorem draw_cards_upright_witness:
  "fst (draw_cards 2 False (\<lambda>i. 0)) =
     Inr [\<lparr>card = card_the_fool, reversed = False,
           meaning = ''New beginnings, innocence, spontaneity, free spirit'',
           orientation = ''Upright''\<rparr>,
          \<lparr>card = card_ace_of_pentacles, reversed = False,
           meaning = ''New financial opportunity, manifestation, abundance'',
           orientation = ''Upright''\<rparr>]
   \<and> \<lparr>card = card_ace_of_pentacles, reversed = False,
        meaning = ''New financial opportunity, manifestation, abundance'',
        orientation = ''Upright''\<rparr>
       \<in> set [\<lparr>card = card_the_fool, reversed = False,
                 meaning = ''New beginnings, innocence, spontaneity, free spirit'',
                 orientation = ''Upright''\<rparr>,
                \<lparr>card = card_ace_of_pentacles, reversed = False,
                 meaning = ''New financial opportunity, manifestation, abundance'',
                 orientation = ''Upright''\<rparr>]
   \<and> \<not> reversed \<lparr>card = card_ace_of_pentacles, reversed = False,
        meaning = ''New financial opportunity, manifestation, abundance'',
        orientation = ''Upright''\<rparr>
   \<and> orientation \<lparr>card = card_ace_of_pentacles, reversed = False,
        meaning = ''New financial opportunity, manifestation, abundance'',
        orientation = ''Upright''\<rparr> = ''Upright''
   \<and> meaning \<lparr>card = card_ace_of_pentacles, reversed = False,
        meaning = ''New financial opportunity, manifestation, abundance'',
        orientation = ''Upright''\<rparr> = meaning_upright card_ace_of_pentacles"
proof -
  have h: "fst (draw_cards 2 False (\<lambda>i. 0)) =
     Inr [\<lparr>card = card_the_fool, reversed = False,
           meaning = ''New beginnings, innocence, spontaneity, free spirit'',
           orientation = ''Upright''\<rparr>,
          \<lparr>card = card_ace_of_pentacles, reversed = False,
           meaning = ''New financial opportunity, manifestation, abundance'',
           orientation = ''Upright''\<rparr>]"
    by (simp add: draw_cards_def random_sample_def sample_loop.simps randbelow_def
        get_all_cards_def GOLDEN_DAWN_DECK_def Let_def card_the_fool_def card_ace_of_pentacles_def)
  have m: "\<lparr>card = card_ace_of_pentacles, reversed = False,
        meaning = ''New financial opportunity, manifestation, abundance'',
        orientation = ''Upright''\<rparr>
       \<in> set [\<lparr>card = card_the_fool, reversed = False,
                 meaning = ''New beginnings, innocence, spontaneity, free spirit'',
                 orientation = ''Upright''\<rparr>,
                \<lparr>card = card_ace_of_pentacles, reversed = False,
                 meaning = ''New financial opportunity, manifestation, abundance'',
                 orientation = ''Upright''\<rparr>]"
    by simp
  show ?thesis
    using h m draw_cards_upright[OF h m] by simp
qed

section \<open>Properties of the spread catalog\<close>

text \<open>
  Claim C6. Every registered spread states a card count equal to the length of its
  list of positions; the Celtic Cross, for one, has card count 10 and 10 positions.
\<close>

theorem spread_card_count_positions:
  assumes "map_of TAROT_SPREADS k = Some spread"
  shows "card_count spread = int (length (positions spread))"
  using registered_card_count(1)[OF assms] .

theorem spread_card_count_positions_witness:
  "map_of TAROT_SPREADS ''celtic_cross'' = Some spread_celtic_cross
   \<and> card_count spread_celtic_cross = 10
   \<and> length (positions spread_celtic_cross) = 10"
proof -
  have h: "map_of TAROT_SPREADS ''celtic_cross'' = Some spread_celtic_cross"
    by (simp add: TAROT_SPREADS_def)
  have "card_count spread_celtic_cross = 10"
    by (simp add: spread_celtic_cross_def)
  with h spread_card_count_positions[OF h] show ?thesis by simp
qed

section \<open>Properties of the interpretation formatter\<close>

lemma strip_fixed:
  assumes "s \<noteq> []" "\<not> is_space (hd s)" "\<not> is_space (last s)"
  shows "strip s = s"
proof -
  have a: "dropWhile is_space s = s"
    using assms(1,2) by (cases s) auto
  have "rev s \<noteq> []" "\<not> is_space (hd (rev s))"
    using assms(1,3) by (simp_all add: hd_rev)
  then have "dropWhile is_space (rev s) = rev s"
    by (cases "rev s") auto
  with a show ?thesis by (simp add: strip_def)
qed

lemma spec_entries_Nil: "spec_entries spread i [] = []"
  by (simp add: spec_entries_def)

lemma spec_entries_Cons:
  "spec_entries spread i (d # ds) =
     spec_card_entry (spec_position_label spread i) d @ spec_entries spread (Suc i) ds"
proof -
  have "[i ..< i + length (d # ds)] = i # [Suc i ..< Suc i + length ds]"
    by (simp add: upt_conv_Cons del: upt_Suc)
  then show ?thesis
    by (simp add: spec_entries_def del: upt_Suc)
qed

lemma basic_loop_registered:
  assumes "map_of TAROT_SPREADS st = Some spread"
  shows "basic_loop st i cards acc = Inr (acc @ spec_entries spread i cards)"
  using assms
  by (induction cards arbitrary: i acc)
     (simp_all add: spec_entries_Nil spec_entries_Cons spec_card_entry_def spec_position_label_def)

lemma basic_loop_unregistered:
  assumes "map_of TAROT_SPREADS st = None"
  shows "basic_loop st i cards acc = (if cards = [] then Inr acc else Inl (KeyError st))"
  using assms by (cases cards) simp_all

lemma interpretation_text_stripped:
  "strip (''Reading for: '' @ qd @ nl @ nl @ body @ closing_paragraph)
   = ''Reading for: '' @ qd @ nl @ nl @ body @ closing_paragraph"
  by (rule strip_fixed) (simp_all add: is_space_def closing_paragraph_def)

lemma generate_basic_interpretation_registered:
  assumes "map_of TAROT_SPREADS st = Some spread"
  shows "generate_basic_interpretation cards q st =
           Inr (''Reading for: '' @ question_or_default q @ nl @ nl
                @ spec_entries spread 0 cards @ closing_paragraph)"
  using interpretation_text_stripped[of "question_or_default q" "spec_entries spread 0 cards"]
  by (simp add: generate_basic_interpretation_def basic_loop_registered[OF assms])

text \<open>
  Claim C8. For every sequence of drawn cards, every question and every registered
  spread type the formatter raises nothing: it returns the header, one entry per card
  and the closing paragraph, where the card at index \<open>i\<close> is labelled with position \<open>i\<close>
  of the spread when the spread has one and with \<^verbatim>\<open>"Position {i+1}"\<close> otherwise, also
  when there are more cards than positions.
\<close>

theorem formatter_never_fails:
  assumes "map_of TAROT_SPREADS st = Some spread"
  shows "generate_basic_interpretation cards q st =
           Inr (''Reading for: '' @ question_or_default q @ nl @ nl
                @ concat (map (\<lambda>(i, d). spec_card_entry
                                 (if i < length (positions spread) then positions spread ! i
                                  else ''Position '' @ str_nat (i + 1)) d)
                            (zip [0 ..< length cards] cards))
                @ closing_paragraph)"
  using generate_basic_interpretation_registered[OF assms, of cards q]
  by (simp add: spec_entries_def spec_position_label_def)

theorem formatter_never_fails_witness:
  "map_of TAROT_SPREADS ''single_card'' = Some spread_single_card
   \<and> generate_basic_interpretation
        [\<lparr>card = card_the_fool, reversed = True,
          meaning = meaning_reversed card_the_fool, orientation = ''Reversed''\<rparr>,
         \<lparr>card = card_strength, reversed = False,
          meaning = meaning_upright card_strength, orientation = ''Upright''\<rparr>]
        (Some ''Why?'') ''single_card''
      = Inr (''Reading for: Why?'' @ nl @ nl
             @ spec_card_entry ''Guidance''
                 \<lparr>card = card_the_fool, reversed = True,
                  meaning = meaning_reversed card_the_fool, orientation = ''Reversed''\<rparr>
             @ spec_card_entry ''Position 2''
                 \<lparr>card = card_strength, reversed = False,
                  meaning = meaning_upright card_strength, orientation = ''Upright''\<rparr>
             @ closing_paragraph)"
proof -
  have h: "map_of TAROT_SPREADS ''single_card'' = Some spread_single_card"
    by (simp add: TAROT_SPREADS_def)
  show ?thesis
    using h formatter_never_fails[OF h,
        of "[\<lparr>card = card_the_fool, reversed = True,
          meaning = meaning_reversed card_the_fool, orientation = ''Reversed''\<rparr>,
         \<lparr>card = card_strength, reversed = False,
          meaning = meaning_upright card_strength, orientation = ''Upright''\<rparr>]" "Some ''Why?''"]
    by (simp add: spread_single_card_def question_or_default_def str_nat.simps digit_char_def)
qed

text \<open>
  Claim C10. \<open>get_ai_interpretation\<close> returns what \<open>generate_basic_interpretation\<close>
  returns on the same arguments, the text as well as a raised \<^verbatim>\<open>KeyError\<close>: the active
  path makes no call to an interpretation service.
\<close>

theorem get_ai_interpretation_is_basic:
  "get_ai_interpretation cards q st = generate_basic_interpretation cards q st"
  by (simp add: get_ai_interpretation_def split: sum.splits)


section \<open>Properties of the reading store\<close>

lemma dict_setitem_timestamp:
  "dict_setitem ''timestamp'' (JStr (timestamp r)) (reading_dict r) = reading_dict r"
  by (simp add: reading_dict_def)

lemma opt_json_JInt_inj: "opt_json JInt a = opt_json JInt b \<Longrightarrow> a = b"
  by (cases a; cases b) (simp_all add: opt_json_def)

lemma opt_json_JStr_inj: "opt_json JStr a = opt_json JStr b \<Longrightarrow> a = b"
  by (cases a; cases b) (simp_all add: opt_json_def)

lemma card_dict_inj:
  fixes c c' :: TarotCard
  assumes "card_dict c = card_dict c'"
  shows "c = c'"
  using assms
  by (cases c; cases c') (auto simp: card_dict_def dest: opt_json_JInt_inj opt_json_JStr_inj)

lemma drawn_dict_inj:
  fixes d d' :: DrawnCard
  assumes "drawn_dict d = drawn_dict d'"
  shows "d = d'"
  using assms
  by (cases d; cases d') (auto simp: drawn_dict_def dest: card_dict_inj)

lemma reading_dict_inj:
  fixes r r' :: TarotReading
  assumes "reading_dict r = reading_dict r'"
  shows "r = r'"
proof -
  have "inj drawn_dict" by (rule injI) (rule drawn_dict_inj)
  then have "map drawn_dict xs = map drawn_dict ys \<Longrightarrow> xs = ys" for xs ys
    by (simp add: inj_map_eq_map)
  with assms show ?thesis
    by (cases r; cases r') (auto simp: reading_dict_def dest: opt_json_JStr_inj)
qed

lemma save_reading_result:
  "save_reading r w =
     (if writable w (reading_file_of (reading_id r))
      then (Inr (reading_file_of (reading_id r)),
            w\<lparr>files := (files w)(reading_file_of (reading_id r) \<mapsto> Document (JDict (reading_dict r)))\<rparr>)
      else (Inl (OSError (reading_file_of (reading_id r))), w))"
  by (simp add: save_reading_def Let_def dict_setitem_timestamp)

text \<open>
  Claim C9. Saving a reading and then loading it by its identifier returns the
  document of that reading, \<^verbatim>\<open>reading.dict()\<close>, under the key \<^verbatim>\<open>reading\<close>; the document
  determines every field of the reading (spread type, question, the drawn cards in
  order, interpretation, timestamp and identifier), so nothing is lost on the way.
\<close>

theorem save_load_roundtrip:
  fixes r :: TarotReading
  assumes "save_reading r w = (Inr location, w')"
  shows "get_reading (reading_id r) w' = Inr (JDict [(''reading'', JDict (reading_dict r))])
         \<and> (\<forall>r' :: TarotReading. reading_dict r' = reading_dict r \<longrightarrow> r' = r)"
proof -
  have w': "w' = w\<lparr>files := (files w)(reading_file_of (reading_id r) \<mapsto> Document (JDict (reading_dict r)))\<rparr>"
    using assms by (auto simp: save_reading_result split: if_splits)
  have "get_reading (reading_id r) w' = Inr (JDict [(''reading'', JDict (reading_dict r))])"
    by (simp add: w' get_reading_def get_reading_body_def)
  then show ?thesis
    using reading_dict_inj by blast
qed

theorem save_load_roundtrip_witness:
  "save_reading example_reading example_world =
     (Inr ''/app/readings/reading_20240101_120000_1234.json'',
      example_world\<lparr>files := (files example_world)
         (''/app/readings/reading_20240101_120000_1234.json''
            \<mapsto> Document (JDict (reading_dict example_reading)))\<rparr>)
   \<and> get_reading ''reading_20240101_120000_1234''
        (example_world\<lparr>files := (files example_world)
         (''/app/readings/reading_20240101_120000_1234.json''
            \<mapsto> Document (JDict (reading_dict example_reading)))\<rparr>)
      = Inr (JDict [(''reading'', JDict (reading_dict example_reading))])"
proof -
  have h: "save_reading example_reading example_world =
     (Inr ''/app/readings/reading_20240101_120000_1234.json'',
      example_world\<lparr>files := (files example_world)
         (''/app/readings/reading_20240101_120000_1234.json''
            \<mapsto> Document (JDict (reading_dict example_reading)))\<rparr>)"
    by (simp add: save_reading_result example_reading_def example_world_def
        reading_file_of_def path_join_def readings_path_def)
  have i: "reading_id example_reading = ''reading_20240101_120000_1234''"
    by (simp add: example_reading_def)
  show ?thesis
    using h save_load_roundtrip[OF h] by (simp add: i)
qed

section \<open>Properties of the request handlers\<close>

lemma create_reading_unregistered:
  assumes "map_of TAROT_SPREADS (req_spread_type request) = None"
  shows "create_reading request w =
           (Inl (HTTPException 500
                   (str_exn (HTTPException 400
                      (''Unknown spread type: '' @ req_spread_type request)))), w)"
  using assms
  by (simp add: create_reading_def create_reading_body_def)

lemma get_reading_absent:
  assumes "files w (reading_file_of rid) = None"
  shows "get_reading rid w =
           Inl (HTTPException 500 (str_exn (HTTPException 404 ''Reading not found'')))"
  using assms
  by (simp add: get_reading_def get_reading_body_def)

text \<open>
  Claim C1 says that an unregistered spread type is answered with status 400. The
  handler raises that exception inside its \<^verbatim>\<open>try\<close> block, where \<^verbatim>\<open>except Exception\<close>
  catches it: the request for the spread \<^verbatim>\<open>nonexistent\<close> is answered with status 500,
  the detail being \<^verbatim>\<open>str\<close> of the caught exception. Nothing is drawn or saved: the
  world is unchanged.
\<close>

theorem create_reading_unknown_spread_status:
  "create_reading
     \<lparr>req_question = None, req_spread_type = ''nonexistent'', req_include_reversed = True,
      req_deck_type = ''golden_dawn'', req_interpretation_style = ''traditional'',
      req_user_birth_info = None\<rparr> w
   = (Inl (HTTPException 500
             (str_exn (HTTPException 400 ''Unknown spread type: nonexistent''))), w)"
  by (simp add: create_reading_def create_reading_body_def TAROT_SPREADS_def)

text \<open>
  Claim C2 says that a reading with no stored file is answered with status 404. The
  handler raises that exception inside its \<^verbatim>\<open>try\<close> block; it is no
  \<^verbatim>\<open>FileNotFoundError\<close>, so \<^verbatim>\<open>except Exception\<close> catches it: with no file stored, the
  request for \<^verbatim>\<open>reading_missing\<close> is answered with status 500.
\<close>

theorem get_reading_missing_status:
  "get_reading ''reading_missing'' (w\<lparr>files := Map.empty\<rparr>)
   = Inl (HTTPException 500 (str_exn (HTTPException 404 ''Reading not found'')))"
  by (simp add: get_reading_def get_reading_body_def)

lemma create_reading_success:
  assumes "fst (create_reading request w) = Inr resp"
  shows "\<exists>spread drawn.
           map_of TAROT_SPREADS (req_spread_type request) = Some spread
           \<and> fst (draw_cards (card_count spread) (req_include_reversed request) (entropy w)) = Inr drawn
           \<and> spread_type (resp_reading resp) = req_spread_type request
           \<and> question (resp_reading resp) = req_question request
           \<and> cards_drawn (resp_reading resp) = drawn
           \<and> timestamp (resp_reading resp) = clock_utc w
           \<and> get_ai_interpretation drawn (req_question request) (req_spread_type request)
               = Inr (interpretation_text (resp_reading resp))"
  using assms
  by (auto simp: create_reading_def create_reading_body_def Let_def save_reading_result
           split: option.splits prod.splits sum.splits if_splits)


lemma create_reading_succeeds:
  assumes "map_of TAROT_SPREADS (req_spread_type request) = Some spread"
    and "\<And>p. writable w p"
  shows "\<exists>resp. fst (create_reading request w) = Inr resp"
proof -
  have nonneg: "0 \<le> card_count spread"
    by (rule registered_card_count(2)[OF assms(1)])
  obtain drawn g1 where d:
    "draw_cards (card_count spread) (req_include_reversed request) (entropy w) = (Inr drawn, g1)"
    unfolding draw_cards_result[OF nonneg] by blast
  obtain itext where i:
    "get_ai_interpretation drawn (req_question request) (req_spread_type request) = Inr itext"
    by (simp add: get_ai_interpretation_def generate_basic_interpretation_registered[OF assms(1)])
  show ?thesis
    by (simp add: create_reading_def create_reading_body_def assms d i Let_def
        save_reading_result split: prod.splits)
qed

text \<open>
  Claim C5. Every reading that \<open>create_reading\<close> produces names a registered spread and
  holds exactly as many drawn cards as that spread's card count; and the card count
  of every registered spread is at most the size of the catalog, so the clamp of
  \<open>draw_cards\<close> never shortens a draw.
\<close>

theorem created_reading_card_count:
  "(fst (create_reading request w) = Inr resp \<longrightarrow>
      (\<exists>spread. map_of TAROT_SPREADS (spread_type (resp_reading resp)) = Some spread
         \<and> int (length (cards_drawn (resp_reading resp))) = card_count spread))
   \<and> (map_of TAROT_SPREADS k = Some sp \<longrightarrow> card_count sp \<le> int (length get_all_cards))"
proof (intro conjI impI)
  assume ok: "fst (create_reading request w) = Inr resp"
  from create_reading_success[OF ok] obtain spread drawn where
    s: "map_of TAROT_SPREADS (req_spread_type request) = Some spread"
    and d: "fst (draw_cards (card_count spread) (req_include_reversed request) (entropy w)) = Inr drawn"
    and t: "spread_type (resp_reading resp) = req_spread_type request"
    and c: "cards_drawn (resp_reading resp) = drawn"
    by blast
  have b: "0 \<le> card_count spread" "card_count spread \<le> 10"
    by (rule registered_card_count(2,3)[OF s])+
  have "length drawn = min (nat (card_count spread)) (length get_all_cards)"
    by (rule draw_cards_length[OF b(1) d])
  with b have "int (length drawn) = card_count spread"
    by (simp add: length_get_all_cards)
  with s t c show "\<exists>spread. map_of TAROT_SPREADS (spread_type (resp_reading resp)) = Some spread
         \<and> int (length (cards_drawn (resp_reading resp))) = card_count spread"
    by simp
next
  assume "map_of TAROT_SPREADS k = Some sp"
  from registered_card_count(3)[OF this]
  show "card_count sp \<le> int (length get_all_cards)"
    by (simp add: length_get_all_cards)
qed

theorem created_reading_card_count_witness:
  "(\<exists>resp. fst (create_reading example_request example_world) = Inr resp
      \<and> spread_type (resp_reading resp) = ''three_card''
      \<and> length (cards_drawn (resp_reading resp)) = 3)
   \<and> map_of TAROT_SPREADS ''three_card'' = Some spread_three_card
   \<and> card_count spread_three_card \<le> int (length get_all_cards)"
proof -
  have reg: "map_of TAROT_SPREADS ''three_card'' = Some spread_three_card"
    by (simp add: TAROT_SPREADS_def)
  have "map_of TAROT_SPREADS (req_spread_type example_request) = Some spread_three_card"
    by (simp add: example_request_def TAROT_SPREADS_def)
  moreover have "writable example_world p" for p
    by (simp add: example_world_def)
  ultimately obtain resp where ok: "fst (create_reading example_request example_world) = Inr resp"
    using create_reading_succeeds by blast
  have st: "spread_type (resp_reading resp) = ''three_card''"
    using create_reading_success[OF ok] by (auto simp: example_request_def)
  have "length (cards_drawn (resp_reading resp)) = 3"
    using created_reading_card_count[of example_request example_world resp "''three_card''" spread_three_card]
      ok st reg
    by (simp add: spread_three_card_def)
  with ok st reg created_reading_card_count[of example_request example_world resp "''three_card''" spread_three_card]
  show ?thesis by blast
qed

lemma created_reading_interpretation:
  assumes "fst (create_reading request w) = Inr resp"
  shows "generate_basic_interpretation (cards_drawn (resp_reading resp))
           (question (resp_reading resp)) (spread_type (resp_reading resp))
         = Inr (interpretation_text (resp_reading resp))"
proof -
  from create_reading_success[OF assms] have
    "get_ai_interpretation (cards_drawn (resp_reading resp))
           (question (resp_reading resp)) (spread_type (resp_reading resp))
         = Inr (interpretation_text (resp_reading resp))"
    by auto
  then show ?thesis
    by (simp add: get_ai_interpretation_def split: sum.splits)
qed

text \<open>
  Claim C7. The formatter is deterministic: two calls with the same drawn cards (with
  their orientations), the same question and the same spread type return the same
  text, character for character. The formatter reads its three arguments and the
  spread catalog, and neither the clock, the random source nor the files: two
  readings created in any two worlds that agree on the drawn cards, the question and
  the spread type carry the same interpretation.
\<close>

theorem formatter_deterministic:
  "(cards = cards' \<and> q = q' \<and> st = st' \<longrightarrow>
      generate_basic_interpretation cards q st = generate_basic_interpretation cards' q' st')
   \<and> (fst (create_reading request w) = Inr resp \<and> fst (create_reading request' w') = Inr resp'
        \<and> cards_drawn (resp_reading resp) = cards_drawn (resp_reading resp')
        \<and> question (resp_reading resp) = question (resp_reading resp')
        \<and> spread_type (resp_reading resp) = spread_type (resp_reading resp') \<longrightarrow>
      interpretation_text (resp_reading resp) = interpretation_text (resp_reading resp'))"
proof (intro conjI impI)
  assume "cards = cards' \<and> q = q' \<and> st = st'"
  then show "generate_basic_interpretation cards q st = generate_basic_interpretation cards' q' st'"
    by simp
next
  assume a: "fst (create_reading request w) = Inr resp \<and> fst (create_reading request' w') = Inr resp'
        \<and> cards_drawn (resp_reading resp) = cards_drawn (resp_reading resp')
        \<and> question (resp_reading resp) = question (resp_reading resp')
        \<and> spread_type (resp_reading resp) = spread_type (resp_reading resp')"
  then have "Inr (interpretation_text (resp_reading resp)) =
             (Inr (interpretation_text (resp_reading resp')) :: exn + string)"
    using created_reading_interpretation[of request w resp]
          created_reading_interpretation[of request' w' resp']
    by simp
  then show "interpretation_text (resp_reading resp) = interpretation_text (resp_reading resp')"
    by simp
qed

theorem formatter_deterministic_witness:
  "([\<lparr>card = card_justice, reversed = False,
       meaning = meaning_upright card_justice, orientation = ''Upright''\<rparr>]
      = [\<lparr>card = card_justice, reversed = False,
       meaning = meaning_upright card_justice, orientation = ''Upright''\<rparr>]
    \<and> (None :: string option) = None \<and> ''single_card'' = ''single_card''
    \<and> generate_basic_interpretation
         [\<lparr>card = card_justice, reversed = False,
           meaning = meaning_upright card_justice, orientation = ''Upright''\<rparr>] None ''single_card''
      = generate_basic_interpretation
         [\<lparr>card = card_justice, reversed = False,
           meaning = meaning_upright card_justice, orientation = ''Upright''\<rparr>] None ''single_card'')
   \<and> (\<exists>resp resp'.
         fst (create_reading example_request example_world) = Inr resp
         \<and> fst (create_reading example_request later_world) = Inr resp'
         \<and> cards_drawn (resp_reading resp) = cards_drawn (resp_reading resp')
         \<and> question (resp_reading resp) = question (resp_reading resp')
         \<and> spread_type (resp_reading resp) = spread_type (resp_reading resp')
         \<and> timestamp (resp_reading resp) \<noteq> timestamp (resp_reading resp')
         \<and> interpretation_text (resp_reading resp) = interpretation_text (resp_reading resp'))"
proof -
  have reg: "map_of TAROT_SPREADS (req_spread_type example_request) = Some spread_three_card"
    by (simp add: example_request_def TAROT_SPREADS_def)
  have "writable example_world p" "writable later_world p" for p
    by (simp_all add: example_world_def later_world_def)
  then obtain resp resp' where
    ok: "fst (create_reading example_request example_world) = Inr resp"
    and ok': "fst (create_reading example_request later_world) = Inr resp'"
    using create_reading_succeeds[OF reg] by meson
  have e: "entropy later_world = entropy example_world"
    by (simp add: later_world_def)
  have c: "cards_drawn (resp_reading resp) = cards_drawn (resp_reading resp')"
    using create_reading_success[OF ok] create_reading_success[OF ok'] reg by (auto simp: e)
  have f: "question (resp_reading resp) = question (resp_reading resp')"
    "spread_type (resp_reading resp) = spread_type (resp_reading resp')"
    using create_reading_success[OF ok] create_reading_success[OF ok'] by auto
  have t: "timestamp (resp_reading resp) \<noteq> timestamp (resp_reading resp')"
    using create_reading_success[OF ok] create_reading_success[OF ok']
    by (auto simp: example_world_def later_world_def)
  have i: "interpretation_text (resp_reading resp) = interpretation_text (resp_reading resp')"
    using formatter_deterministic[of "cards_drawn (resp_reading resp)" "cards_drawn (resp_reading resp)"
        None None "''single_card''" "''single_card''"
        example_request example_world resp example_request later_world resp'] ok ok' c f
    by simp
  show ?thesis
    using ok ok' c f t i by auto
qed

end
